theory Spec2Isabelle
  imports Complex_Main
begin

section \<open>Configuration (config.py)\<close>

text \<open>
  The settings are resolved once from the process environment, each with a fixed
  fallback. The environment is a finite map from variable names to strings, taken after
  the call of load_dotenv. Only the settings that chart.py imports are modelled; the
  host, port and client-id settings are read by the application's entry point.
\<close>

type_synonym environ = "string \<rightharpoonup> string"

definition getenv :: "environ \<Rightarrow> string \<Rightarrow> string \<Rightarrow> string" where
  "getenv env name dflt = (case env name of None \<Rightarrow> dflt | Some v \<Rightarrow> v)"

record config =
  INITIAL_SYMBOL :: string
  DEFAULT_TIMEFRAME :: string
  DEFAULT_TIMEFRAME_OPTIONS :: "string list"
  DEFAULT_HISTORICAL_DURATION :: string
  DEFAULT_CURRENCY :: string

definition load_config :: "environ \<Rightarrow> config" where
  "load_config env =
     \<lparr> INITIAL_SYMBOL = getenv env ''INITIAL_SYMBOL'' ''AAPL'',
       DEFAULT_TIMEFRAME = ''1 min'',
       DEFAULT_TIMEFRAME_OPTIONS = [''1 min'', ''5 mins'', ''15 mins'', ''1 hour''],
       DEFAULT_HISTORICAL_DURATION = getenv env ''DEFAULT_HISTORICAL_DURATION'' ''30 D'',
       DEFAULT_CURRENCY = getenv env ''DEFAULT_CURRENCY'' ''USD'' \<rparr>"

section \<open>Data carried between the collaborators\<close>

text \<open>
  Modelled from the spec: the Bar row type. The producer of the queue (the trading
  client's callback) is not among the source files; the specification gives a bar as one
  row of market data with a timestamp, open, high, low, close and volume. The values are
  only carried, never computed with, so the prices are real numbers here.
\<close>

record bar =
  bar_date :: int
  bar_open :: real
  bar_high :: real
  bar_low :: real
  bar_close :: real
  bar_volume :: int

definition bar_columns :: "string list" where
  "bar_columns = [''date'', ''open'', ''high'', ''low'', ''close'', ''volume'']"

text \<open>
  The table built by \<^verbatim>\<open>pd.DataFrame(bars)\<close> from a list of rows: no rows give a
  table with no columns; otherwise the columns are the bar's fields. A table is empty
  when either axis has length zero.
\<close>

record dataframe =
  columns :: "string list"
  rows :: "bar list"

definition DataFrame :: "bar list \<Rightarrow> dataframe" where
  "DataFrame bars = \<lparr> columns = (if bars = [] then [] else bar_columns), rows = bars \<rparr>"

definition df_empty :: "dataframe \<Rightarrow> bool" where
  "df_empty df = (columns df = [] \<or> rows df = [])"

text \<open>The contract and order objects of the brokerage API, with the fields the handler assigns.\<close>

record contract =
  symbol :: string
  secType :: string
  exchange :: string
  currency :: string

definition Contract :: contract where
  "Contract = \<lparr> symbol = [], secType = [], exchange = [], currency = [] \<rparr>"

record order =
  orderType :: string
  totalQuantity :: int
  action :: string

definition Order :: order where
  "Order = \<lparr> orderType = [], totalQuantity = 0, action = [] \<rparr>"

text \<open>The arguments of one reqHistoricalData call.\<close>

record hist_request =
  requestId :: int
  req_contract :: contract
  endDateTime :: string
  durationStr :: string
  barSizeSetting :: string
  whatToShow :: string
  useRTH :: bool
  formatDate :: int
  keepUpToDate :: bool
  chartOptions :: "(string \<times> string) list"

section \<open>Effects, errors and the state\<close>

datatype level = DEBUG | INFO | WARNING | ERROR

type_synonym bytes = "char list"

text \<open>
  Every call into an external collaborator (logger, chart widget, trading client, clock,
  file system) is recorded, in program order, as one event.
\<close>

datatype event =
    Log level string
  | LogBar level string bar
  | Spinner bool
  | ChartSet dataframe
  | Watermark string
  | TopbarSet string string
  | ReqHistoricalData hist_request
  | ReqIds int
  | PlaceOrder int contract order
  | Sleep nat
  | Screenshot
  | FileWrite string bytes

text \<open>
  The exceptions that occur: the queue's empty signal, and the attribute lookup on
  \<^verbatim>\<open>None\<close> (with the name of the attribute looked up).
\<close>

datatype error = QueueEmpty | AttributeError string

text \<open>The state of the chart widget that the handler reads and writes.\<close>

record chart =
  topbar_symbol :: string
  topbar_timeframe :: string
  timeframe_options :: "string list"
  legend :: bool
  hotkeys :: "(string \<times> string) list"
  dataset :: dataframe
  watermark_text :: string
  spinner_on :: bool

text \<open>
  The trading client, as far as the handler reads it: the \<^verbatim>\<open>order_id\<close> attribute,
  which holds \<^verbatim>\<open>None\<close> or an integer.
\<close>

record client =
  order_id :: "int option"

record world =
  config :: config
  chart :: chart
  client :: "client option"
  data_queue :: "bar list"
  files :: "string \<rightharpoonup> bytes"
  trace :: "event list"

text \<open>An operation either returns or raises; the state reached is kept in both cases.\<close>

datatype outcome = Returned world | Raised error world

definition emit :: "event \<Rightarrow> world \<Rightarrow> world" where
  "emit e w = w\<lparr> trace := trace w @ [e] \<rparr>"

definition logger :: "level \<Rightarrow> string \<Rightarrow> world \<Rightarrow> world" where
  "logger l msg w = emit (Log l msg) w"

definition spinner :: "bool \<Rightarrow> world \<Rightarrow> world" where
  "spinner b w = emit (Spinner b) (w\<lparr> chart := (chart w)\<lparr> spinner_on := b \<rparr> \<rparr>)"

definition chart_set :: "dataframe \<Rightarrow> world \<Rightarrow> world" where
  "chart_set df w = emit (ChartSet df) (w\<lparr> chart := (chart w)\<lparr> dataset := df \<rparr> \<rparr>)"

definition watermark :: "string \<Rightarrow> world \<Rightarrow> world" where
  "watermark s w = emit (Watermark s) (w\<lparr> chart := (chart w)\<lparr> watermark_text := s \<rparr> \<rparr>)"

definition topbar_symbol_set :: "string \<Rightarrow> world \<Rightarrow> world" where
  "topbar_symbol_set s w =
     emit (TopbarSet ''symbol'' s) (w\<lparr> chart := (chart w)\<lparr> topbar_symbol := s \<rparr> \<rparr>)"

definition sleep :: "nat \<Rightarrow> world \<Rightarrow> world" where
  "sleep n w = emit (Sleep n) w"

text \<open>Python's truth value of the \<^verbatim>\<open>order_id\<close> attribute.\<close>

fun truthy :: "int option \<Rightarrow> bool" where
  "truthy None = False"
| "truthy (Some n) = (n \<noteq> 0)"

section \<open>ChartHandler (chart\_handler/chart.py)\<close>

text \<open>
  Construction: the widget with its top bar and both hotkeys, the client handle unset.
  The shared queue is created empty; the file system is given.
\<close>

definition ChartHandler_init :: "config \<Rightarrow> (string \<rightharpoonup> bytes) \<Rightarrow> world" where
  "ChartHandler_init cfg fs =
     \<lparr> config = cfg,
       chart = \<lparr> topbar_symbol = INITIAL_SYMBOL cfg,
                 topbar_timeframe = DEFAULT_TIMEFRAME cfg,
                 timeframe_options = DEFAULT_TIMEFRAME_OPTIONS cfg,
                 legend = True,
                 hotkeys = [(''shift'', ''B''), (''shift'', ''S'')],
                 dataset = DataFrame [],
                 watermark_text = [],
                 spinner_on = False \<rparr>,
       client = None,
       data_queue = [],
       files = fs,
       trace = [] \<rparr>"

definition set_client :: "client \<Rightarrow> world \<Rightarrow> world" where
  "set_client c w = w\<lparr> client := Some c \<rparr>"

text \<open>\<^verbatim>\<open>data_queue.get_nowait()\<close>: the oldest item, or the empty signal.\<close>

fun get_nowait :: "bar list \<Rightarrow> error + bar \<times> bar list" where
  "get_nowait [] = Inl QueueEmpty"
| "get_nowait (d # q) = Inr (d, q)"

text \<open>
  The \<^verbatim>\<open>while True\<close> loop of update\_chart. It has no exit but an exception, so its
  value is the exception raised, with the state and the bars collected so far.
\<close>

function drain :: "world \<Rightarrow> bar list \<Rightarrow> error \<times> world \<times> bar list" where
  "drain w bars =
     (case get_nowait (data_queue w) of
        Inl e \<Rightarrow> (e, w, bars)
      | Inr (d, q) \<Rightarrow>
          drain (emit (LogBar DEBUG ''Received data from the queue: '' d) (w\<lparr> data_queue := q \<rparr>))
                (bars @ [d]))"
  by pat_completeness auto
termination
proof (relation "measure (\<lambda>(w, bars). length (data_queue w))")
  show "wf (measure (\<lambda>(w, bars). length (data_queue w)))" by simp
next
  fix w :: world and bars :: "bar list" and x2 :: "bar \<times> bar list" and d q
  assume "get_nowait (data_queue w) = Inr x2" and "(d, q) = x2"
  then have "data_queue w = d # q"
    by (cases "data_queue w") auto
  then show "((emit (LogBar DEBUG ''Received data from the queue: '' d) (w\<lparr>data_queue := q\<rparr>), bars @ [d]),
              (w, bars)) \<in> measure (\<lambda>(w, bars). length (data_queue w))"
    by (simp add: emit_def)
qed

declare drain.simps [simp del]

text \<open>
  update\_chart: the try block runs the loop; the handler of the empty signal logs; the
  finally block builds the table and sets it unless it is empty; an exception other than
  the empty signal leaves through the finally block.
\<close>

definition update_chart :: "world \<Rightarrow> outcome" where
  "update_chart w =
     (let w1 = spinner True w;
          w2 = logger INFO ''Updating chart with new data from the queue.'' w1;
          (e, w3, bars) = drain w2 [];
          (w4, pending) = (case e of
                             QueueEmpty \<Rightarrow> (logger INFO ''No new data in queue.'' w3, None)
                           | _ \<Rightarrow> (w3, Some e));
          df = DataFrame bars;
          w5 = (if \<not> df_empty df then chart_set df w4
                else logger WARNING ''No data to update the chart.'' w4)
      in case pending of
           Some e' \<Rightarrow> Raised e' w5
         | None \<Rightarrow> Returned (spinner False w5))"

definition request_data :: "world \<Rightarrow> string \<Rightarrow> string \<Rightarrow> outcome" where
  "request_data w symb timeframe =
     (let w1 = logger INFO (''Requesting bar data for '' @ symb @ '' '' @ timeframe) w;
          w2 = spinner True w1;
          c = Contract\<lparr> symbol := symb, secType := ''STK'', exchange := ''SMART'',
                        currency := DEFAULT_CURRENCY (config w2) \<rparr>;
          what_to_show = ''TRADES''
      in case client w2 of
           None \<Rightarrow> Raised (AttributeError ''reqHistoricalData'') w2
         | Some cl \<Rightarrow>
             (let w3 = emit (ReqHistoricalData
                          \<lparr> requestId = 2, req_contract = c, endDateTime = [],
                            durationStr = DEFAULT_HISTORICAL_DURATION (config w2),
                            barSizeSetting = timeframe, whatToShow = what_to_show,
                            useRTH = True, formatDate = 2, keepUpToDate = False,
                            chartOptions = [] \<rparr>) w2;
                  w4 = sleep 1 w3;
                  w5 = watermark symb w4
              in Returned (spinner False w5)))"

definition on_timeframe_selection :: "world \<Rightarrow> outcome" where
  "on_timeframe_selection w =
     (let symb = topbar_symbol (chart w);
          timeframe = topbar_timeframe (chart w);
          w1 = logger INFO (''Selected timeframe: '' @ timeframe @ '' for '' @ symb) w
      in request_data w1 symb timeframe)"

definition on_search :: "world \<Rightarrow> string \<Rightarrow> outcome" where
  "on_search w searched_string =
     (let w1 = logger INFO (''Searching for symbol: '' @ searched_string) w
      in case request_data w1 searched_string (topbar_timeframe (chart w1)) of
           Raised e w2 \<Rightarrow> Raised e w2
         | Returned w2 \<Rightarrow> Returned (topbar_symbol_set searched_string w2))"

text \<open>
  take\_screenshot. The widget's renderer, the clock reading and Python's formatting of
  a float are external: \<open>render\<close> gives the image bytes of a chart state, \<open>now\<close> is
  the value of \<^verbatim>\<open>time.time()\<close> and \<open>str_float\<close> its formatting in the f-string.
  The file is opened for writing in binary mode, which replaces a file of that name.
\<close>

definition take_screenshot ::
  "(chart \<Rightarrow> bytes) \<Rightarrow> (real \<Rightarrow> string) \<Rightarrow> real \<Rightarrow> world \<Rightarrow> string \<Rightarrow> world" where
  "take_screenshot render str_float now w key =
     (let img = render (chart w);
          w1 = emit Screenshot w;
          t = now;
          name = ''screenshot-'' @ str_float t @ ''.png'';
          w2 = emit (FileWrite name img) (w1\<lparr> files := (files w1)(name \<mapsto> img) \<rparr>)
      in w2)"

text \<open>
  place\_order. What the trading client does on its own thread between the reqIds call
  and the end of the two-second sleep is the parameter \<open>async\<close>, a change of the
  client's attributes; the handler then reads \<^verbatim>\<open>order_id\<close>.
\<close>

definition place_order :: "(client \<Rightarrow> client) \<Rightarrow> world \<Rightarrow> string \<Rightarrow> outcome" where
  "place_order async w key =
     (let symb = topbar_symbol (chart w);
          c = Contract\<lparr> symbol := symb, secType := ''STK'', currency := ''USD'',
                        exchange := ''SMART'' \<rparr>;
          order_action = (if key = ''B'' then ''BUY'' else ''SELL'');
          order_quantity = 1
      in case client w of
           None \<Rightarrow> Raised (AttributeError ''reqIds'') w
         | Some cl \<Rightarrow>
             (let w1 = emit (ReqIds (- 1)) w;
                  w2 = (sleep 2 w1)\<lparr> client := Some (async cl) \<rparr>
              in if truthy (order_id (async cl)) then
                   (let w3 = logger INFO (''Placing '' @ order_action @ '' order for 1 shares of '' @ symb) w2;
                        ord = Order\<lparr> orderType := ''MKT'', totalQuantity := order_quantity,
                                     action := order_action \<rparr>
                    in Returned (emit (PlaceOrder (the (order_id (async cl))) c ord) w3))
                 else
                   Returned (logger ERROR ''Order ID not received from IB API. Cannot place order.'' w2)))"

section \<open>Observing an outcome\<close>

fun world_of :: "outcome \<Rightarrow> world" where
  "world_of (Returned w) = w"
| "world_of (Raised e w) = w"

fun raised :: "outcome \<Rightarrow> error option" where
  "raised (Returned w) = None"
| "raised (Raised e w) = Some e"

text \<open>The events of one call: those that the state after it has beyond the state before.\<close>

definition new_events :: "world \<Rightarrow> world \<Rightarrow> event list" where
  "new_events w w' = drop (length (trace w)) (trace w')"

fun hist_requests :: "event list \<Rightarrow> hist_request list" where
  "hist_requests [] = []"
| "hist_requests (ReqHistoricalData r # es) = r # hist_requests es"
| "hist_requests (e # es) = hist_requests es"

fun placed_orders :: "event list \<Rightarrow> (int \<times> contract \<times> order) list" where
  "placed_orders [] = []"
| "placed_orders (PlaceOrder oid c ord # es) = (oid, c, ord) # placed_orders es"
| "placed_orders (e # es) = placed_orders es"

fun chart_sets :: "event list \<Rightarrow> dataframe list" where
  "chart_sets [] = []"
| "chart_sets (ChartSet df # es) = df # chart_sets es"
| "chart_sets (e # es) = chart_sets es"

fun logged :: "level \<Rightarrow> event list \<Rightarrow> string list" where
  "logged l [] = []"
| "logged l (Log l' msg # es) = (if l' = l then msg # logged l es else logged l es)"
| "logged l (LogBar l' msg b # es) = (if l' = l then msg # logged l es else logged l es)"
| "logged l (e # es) = logged l es"

fun order_currency :: "int \<times> contract \<times> order \<Rightarrow> string" where
  "order_currency (oid, c, ord) = currency c"

section \<open>Example states\<close>

text \<open>
  A handler built from an environment that sets the currency to EUR, with a client
  attached that holds no order id yet; two bars; and the client's callback that stores an
  order id, as the behaviour of the client during the wait of place\_order.
\<close>

definition demo_environ :: environ where
  "demo_environ = [''DEFAULT_CURRENCY'' \<mapsto> ''EUR'']"

definition demo_client :: client where
  "demo_client = \<lparr> order_id = None \<rparr>"

definition demo_world :: world where
  "demo_world = set_client demo_client (ChartHandler_init (load_config demo_environ) Map.empty)"

definition bar1 :: bar where
  "bar1 = \<lparr> bar_date = 1700000000, bar_open = 10, bar_high = 12, bar_low = 9,
            bar_close = 11, bar_volume = 500 \<rparr>"

definition bar2 :: bar where
  "bar2 = \<lparr> bar_date = 1700000060, bar_open = 11, bar_high = 13, bar_low = 10,
            bar_close = 12, bar_volume = 700 \<rparr>"

definition order_id_arrives :: "int \<Rightarrow> client \<Rightarrow> client" where
  "order_id_arrives n cl = cl\<lparr> order_id := Some n \<rparr>"

definition nothing_arrives :: "client \<Rightarrow> client" where
  "nothing_arrives cl = cl"

text \<open>
  A handler that has displayed one bar (the state after an update that drained
  \<open>bar1\<close>), and the same handler once two more bars have arrived on the queue.
\<close>

definition shown_world :: world where
  "shown_world = world_of (update_chart (demo_world\<lparr> data_queue := [bar1] \<rparr>))"

definition requeued_world :: world where
  "requeued_world = shown_world\<lparr> data_queue := [bar2, bar1] \<rparr>"


text \<open>
  The handler after an earlier order went through with the id 7: the client still holds
  that id, since place\_order never clears it.
\<close>

definition stale_world :: world where
  "stale_world = world_of (place_order (order_id_arrives 7) demo_world ''B'')"

text \<open>The handler right after construction, before a client is attached.\<close>

definition fresh_world :: world where
  "fresh_world = ChartHandler_init (load_config demo_environ) Map.empty"

section \<open>Basic facts about the operations\<close>

lemma emit_simps [simp]:
  "trace (emit e w) = trace w @ [e]"
  "chart (emit e w) = chart w"
  "client (emit e w) = client w"
  "config (emit e w) = config w"
  "data_queue (emit e w) = data_queue w"
  "files (emit e w) = files w"
  by (simp_all add: emit_def)

lemma drain_eq:
  "drain w bars =
     (QueueEmpty,
      w\<lparr> data_queue := [],
         trace := trace w @ map (LogBar DEBUG ''Received data from the queue: '') (data_queue w) \<rparr>,
      bars @ data_queue w)"
proof (induction "data_queue w" arbitrary: w bars)
  case Nil
  then show ?case by (subst drain.simps) (simp add: Nil [symmetric])
next
  case (Cons d q)
  let ?w = "emit (LogBar DEBUG ''Received data from the queue: '' d) (w\<lparr>data_queue := q\<rparr>)"
  have q: "q = data_queue ?w" by simp
  have "drain w bars = drain ?w (bars @ [d])"
    by (subst drain.simps) (simp add: Cons.hyps(2) [symmetric])
  also have "\<dots> = (QueueEmpty, ?w\<lparr> data_queue := [],
         trace := trace ?w @ map (LogBar DEBUG ''Received data from the queue: '') (data_queue ?w) \<rparr>,
      (bars @ [d]) @ data_queue ?w)"
    by (rule Cons.hyps(1) [OF q])
  finally show ?case by (simp add: Cons.hyps(2) [symmetric] emit_def)
qed

lemma update_chart_nonempty:
  assumes "data_queue w \<noteq> []"
  shows "update_chart w = Returned
     (w\<lparr> chart := (chart w)\<lparr> dataset := DataFrame (data_queue w), spinner_on := False \<rparr>,
         data_queue := [],
         trace := trace w @ [Spinner True, Log INFO ''Updating chart with new data from the queue.'']
                  @ map (LogBar DEBUG ''Received data from the queue: '') (data_queue w)
                  @ [Log INFO ''No new data in queue.'', ChartSet (DataFrame (data_queue w)), Spinner False] \<rparr>)"
  using assms
  by (simp add: update_chart_def drain_eq logger_def spinner_def chart_set_def emit_def
      DataFrame_def df_empty_def bar_columns_def)

lemma update_chart_empty:
  assumes "data_queue w = []"
  shows "update_chart w = Returned
     (w\<lparr> chart := (chart w)\<lparr> spinner_on := False \<rparr>,
         trace := trace w @ [Spinner True, Log INFO ''Updating chart with new data from the queue.'',
                   Log INFO ''No new data in queue.'', Log WARNING ''No data to update the chart.'',
                   Spinner False] \<rparr>)"
  using assms
  by (simp add: update_chart_def drain_eq logger_def spinner_def chart_set_def emit_def
      DataFrame_def df_empty_def bar_columns_def)

lemma new_events_append [simp]:
  "trace w' = trace w @ es \<Longrightarrow> new_events w w' = es"
  by (simp add: new_events_def)

lemma request_data_with_client:
  assumes "client w = Some cl"
  shows "request_data w symb tf = Returned
     (w\<lparr> chart := (chart w)\<lparr> spinner_on := False, watermark_text := symb \<rparr>,
         trace := trace w @
           [Log INFO (''Requesting bar data for '' @ symb @ '' '' @ tf),
            Spinner True,
            ReqHistoricalData
              \<lparr> requestId = 2,
                req_contract = \<lparr> symbol = symb, secType = ''STK'', exchange = ''SMART'',
                                 currency = DEFAULT_CURRENCY (config w) \<rparr>,
                endDateTime = [],
                durationStr = DEFAULT_HISTORICAL_DURATION (config w),
                barSizeSetting = tf, whatToShow = ''TRADES'', useRTH = True,
                formatDate = 2, keepUpToDate = False, chartOptions = [] \<rparr>,
            Sleep 1, Watermark symb, Spinner False] \<rparr>)"
  using assms
  by (simp add: request_data_def logger_def spinner_def watermark_def sleep_def emit_def
      Contract_def)

lemma request_data_without_client:
  assumes "client w = None"
  shows "request_data w symb tf = Raised (AttributeError ''reqHistoricalData'')
     (w\<lparr> chart := (chart w)\<lparr> spinner_on := True \<rparr>,
         trace := trace w @
           [Log INFO (''Requesting bar data for '' @ symb @ '' '' @ tf), Spinner True] \<rparr>)"
  using assms
  by (simp add: request_data_def logger_def spinner_def emit_def)

lemma place_order_truthy:
  assumes "client w = Some cl" and "order_id (async cl) = Some n" and "n \<noteq> 0"
  shows "place_order async w key = Returned
     (w\<lparr> client := Some (async cl),
         trace := trace w @
           [ReqIds (- 1), Sleep 2,
            Log INFO (''Placing '' @ (if key = ''B'' then ''BUY'' else ''SELL'')
                      @ '' order for 1 shares of '' @ topbar_symbol (chart w)),
            PlaceOrder n
              \<lparr> symbol = topbar_symbol (chart w), secType = ''STK'', exchange = ''SMART'',
                currency = ''USD'' \<rparr>
              \<lparr> orderType = ''MKT'', totalQuantity = 1,
                action = (if key = ''B'' then ''BUY'' else ''SELL'') \<rparr>] \<rparr>)"
  using assms
  by (simp add: place_order_def Let_def logger_def sleep_def emit_def Contract_def Order_def)

lemma place_order_falsy:
  assumes "client w = Some cl" and "\<not> truthy (order_id (async cl))"
  shows "place_order async w key = Returned
     (w\<lparr> client := Some (async cl),
         trace := trace w @
           [ReqIds (- 1), Sleep 2,
            Log ERROR ''Order ID not received from IB API. Cannot place order.''] \<rparr>)"
  using assms
  by (simp add: place_order_def Let_def logger_def sleep_def emit_def)

lemma place_order_without_client:
  assumes "client w = None"
  shows "place_order async w key = Raised (AttributeError ''reqIds'') w"
  using assms by (simp add: place_order_def Let_def)

lemma on_search_with_client:
  assumes "client w = Some cl"
  shows "on_search w s = Returned
     (w\<lparr> chart := (chart w)\<lparr> spinner_on := False, watermark_text := s, topbar_symbol := s \<rparr>,
         trace := trace w @
           [Log INFO (''Searching for symbol: '' @ s),
            Log INFO (''Requesting bar data for '' @ s @ '' '' @ topbar_timeframe (chart w)),
            Spinner True,
            ReqHistoricalData
              \<lparr> requestId = 2,
                req_contract = \<lparr> symbol = s, secType = ''STK'', exchange = ''SMART'',
                                 currency = DEFAULT_CURRENCY (config w) \<rparr>,
                endDateTime = [],
                durationStr = DEFAULT_HISTORICAL_DURATION (config w),
                barSizeSetting = topbar_timeframe (chart w), whatToShow = ''TRADES'',
                useRTH = True, formatDate = 2, keepUpToDate = False, chartOptions = [] \<rparr>,
            Sleep 1, Watermark s, Spinner False,
            TopbarSet ''symbol'' s] \<rparr>)"
proof -
  let ?w1 = "logger INFO (''Searching for symbol: '' @ s) w"
  have c: "client ?w1 = Some cl" using assms by (simp add: logger_def)
  show ?thesis
    unfolding on_search_def Let_def request_data_with_client [OF c]
    by (simp add: logger_def topbar_symbol_set_def emit_def)
qed


lemma chart_sets_append: "chart_sets (xs @ ys) = chart_sets xs @ chart_sets ys"
  by (induction xs rule: chart_sets.induct) simp_all

lemma chart_sets_LogBar: "chart_sets (map (LogBar l m) q) = []"
  by (induction q) simp_all

lemma shown_world_eq:
  "data_queue shown_world = []"
  "dataset (chart shown_world) = DataFrame [bar1]"
  by (simp_all add: shown_world_def update_chart_nonempty)

lemma on_search_without_client:
  assumes "client w = None"
  shows "raised (on_search w s) = Some (AttributeError ''reqHistoricalData'')"
proof -
  let ?w1 = "logger INFO (''Searching for symbol: '' @ s) w"
  have c: "client ?w1 = None" using assms by (simp add: logger_def)
  show ?thesis
    unfolding on_search_def Let_def request_data_without_client [OF c] by simp
qed

lemma on_timeframe_selection_without_client:
  assumes "client w = None"
  shows "raised (on_timeframe_selection w) = Some (AttributeError ''reqHistoricalData'')"
proof -
  let ?w1 = "logger INFO (''Selected timeframe: '' @ topbar_timeframe (chart w) @ '' for ''
                          @ topbar_symbol (chart w)) w"
  have c: "client ?w1 = None" using assms by (simp add: logger_def)
  show ?thesis
    unfolding on_timeframe_selection_def Let_def request_data_without_client [OF c] by simp
qed

lemma fresh_world_client: "client fresh_world = None"
  by (simp add: fresh_world_def ChartHandler_init_def)

lemma demo_world_client: "client demo_world = Some demo_client"
  by (simp add: demo_world_def set_client_def)

lemma demo_world_config:
  "DEFAULT_CURRENCY (config demo_world) = ''EUR''"
  "DEFAULT_HISTORICAL_DURATION (config demo_world) = ''30 D''"
  by (simp_all add: demo_world_def set_client_def ChartHandler_init_def load_config_def
      getenv_def demo_environ_def)

lemma demo_world_chart:
  "topbar_symbol (chart demo_world) = ''AAPL''"
  "topbar_timeframe (chart demo_world) = ''1 min''"
  by (simp_all add: demo_world_def set_client_def ChartHandler_init_def load_config_def
      getenv_def demo_environ_def)

lemma logged_append: "logged l (xs @ ys) = logged l xs @ logged l ys"
  by (induction l xs rule: logged.induct) simp_all

lemma logged_INFO_LogBar_DEBUG: "logged INFO (map (LogBar DEBUG m) q) = []"
  by (induction q) simp_all

lemma stale_world_eq:
  "client stale_world = Some (order_id_arrives 7 demo_client)"
  "topbar_symbol (chart stale_world) = ''AAPL''"
proof -
  have a: "order_id (order_id_arrives 7 demo_client) = Some 7"
    by (simp add: order_id_arrives_def)
  have n: "(7 :: int) \<noteq> 0" by simp
  note r = place_order_truthy [where async = "order_id_arrives 7", OF demo_world_client a n,
      of "''B''"]
  show "client stale_world = Some (order_id_arrives 7 demo_client)"
    by (simp add: stale_world_def r)
  show "topbar_symbol (chart stale_world) = ''AAPL''"
    by (simp add: stale_world_def r demo_world_chart)
qed

section \<open>The claims\<close>

text \<open>
  C1, as stated, fails: called with an empty queue on a chart that displays \<open>bar1\<close>,
  update\_chart leaves \<open>bar1\<close> displayed, so the displayed rows are not the (empty)
  sequence of drained bars.
\<close>

theorem update_chart_empty_queue_counterexample:
  "data_queue shown_world = []
   \<and> rows (dataset (chart shown_world)) = [bar1]
   \<and> rows (dataset (chart (world_of (update_chart shown_world)))) = [bar1]
   \<and> rows (dataset (chart (world_of (update_chart shown_world)))) \<noteq> data_queue shown_world"
  by (simp add: update_chart_empty shown_world_eq DataFrame_def)

text \<open>
  C1, amended: for every non-empty sequence of bars in the shared queue, update\_chart
  returns, the displayed dataset is the table of exactly those bars in arrival order
  whatever was displayed before, the dataset is set exactly once, the loop has ended by
  the empty signal (its handler has logged), and the queue is empty afterwards.
\<close>

theorem update_chart_replaces_dataset:
  assumes "data_queue w \<noteq> []"
  shows "raised (update_chart w) = None
       \<and> dataset (chart (world_of (update_chart w))) = DataFrame (data_queue w)
       \<and> rows (dataset (chart (world_of (update_chart w)))) = data_queue w
       \<and> chart_sets (new_events w (world_of (update_chart w))) = [DataFrame (data_queue w)]
       \<and> logged INFO (new_events w (world_of (update_chart w))) =
           [''Updating chart with new data from the queue.'', ''No new data in queue.'']
       \<and> data_queue (world_of (update_chart w)) = []"
proof -
  note r = update_chart_nonempty [OF assms]
  have "raised (update_chart w) = None" by (simp add: r)
  moreover have "dataset (chart (world_of (update_chart w))) = DataFrame (data_queue w)"
    by (simp add: r)
  moreover have "rows (DataFrame (data_queue w)) = data_queue w"
    by (simp add: DataFrame_def)
  moreover have "chart_sets (new_events w (world_of (update_chart w))) = [DataFrame (data_queue w)]"
    by (simp add: r chart_sets_append chart_sets_LogBar)
  moreover have "logged INFO (new_events w (world_of (update_chart w))) =
           [''Updating chart with new data from the queue.'', ''No new data in queue.'']"
    by (simp add: r logged_append logged_INFO_LogBar_DEBUG)
  moreover have "data_queue (world_of (update_chart w)) = []" by (simp add: r)
  ultimately show ?thesis by simp
qed

theorem update_chart_replaces_dataset_witness:
  "data_queue requeued_world \<noteq> []
   \<and> rows (dataset (chart requeued_world)) = [bar1]
   \<and> raised (update_chart requeued_world) = None
   \<and> rows (dataset (chart (world_of (update_chart requeued_world)))) = [bar2, bar1]
   \<and> data_queue (world_of (update_chart requeued_world)) = []"
proof -
  have q: "data_queue requeued_world = [bar2, bar1]" by (simp add: requeued_world_def)
  have h: "data_queue requeued_world \<noteq> []" by (simp add: q)
  have d: "rows (dataset (chart requeued_world)) = [bar1]"
    by (simp add: requeued_world_def shown_world_eq DataFrame_def)
  from update_chart_replaces_dataset [OF h] h d show ?thesis by (simp add: q DataFrame_def)
qed

text \<open>
  C2: with the client set, request\_data returns and issues exactly one historical-data
  request: request id 2, a contract with the given symbol, security type STK, exchange
  SMART and the configured default currency, an empty end time, the configured duration,
  the requested timeframe as bar size, TRADES, regular trading hours only, date format 2
  (Unix timestamps), no streaming and no chart options.
\<close>

theorem request_data_issues_one_request:
  assumes "client w = Some cl"
  shows "raised (request_data w symb tf) = None
       \<and> hist_requests (new_events w (world_of (request_data w symb tf))) =
           [\<lparr> requestId = 2,
              req_contract = \<lparr> symbol = symb, secType = ''STK'', exchange = ''SMART'',
                               currency = DEFAULT_CURRENCY (config w) \<rparr>,
              endDateTime = [],
              durationStr = DEFAULT_HISTORICAL_DURATION (config w),
              barSizeSetting = tf, whatToShow = ''TRADES'', useRTH = True,
              formatDate = 2, keepUpToDate = False, chartOptions = [] \<rparr>]"
  by (simp add: request_data_with_client [OF assms])

theorem request_data_issues_one_request_witness:
  "client demo_world = Some demo_client
   \<and> raised (request_data demo_world ''AAPL'' ''5 mins'') = None
   \<and> hist_requests (new_events demo_world (world_of (request_data demo_world ''AAPL'' ''5 mins''))) =
       [\<lparr> requestId = 2,
          req_contract = \<lparr> symbol = ''AAPL'', secType = ''STK'', exchange = ''SMART'',
                           currency = ''EUR'' \<rparr>,
          endDateTime = [], durationStr = ''30 D'', barSizeSetting = ''5 mins'',
          whatToShow = ''TRADES'', useRTH = True, formatDate = 2, keepUpToDate = False,
          chartOptions = [] \<rparr>]"
  using request_data_issues_one_request [OF demo_world_client, of "''AAPL''" "''5 mins''"]
  by (simp add: demo_world_client demo_world_config)

text \<open>
  C3, as stated, fails: when the order id that the client holds after the wait is 0, a
  value is present and yet no order is submitted.
\<close>

theorem place_order_zero_id_counterexample:
  "client demo_world = Some demo_client
   \<and> order_id (order_id_arrives 0 demo_client) = Some 0
   \<and> placed_orders (new_events demo_world
        (world_of (place_order (order_id_arrives 0) demo_world ''B''))) = []"
proof -
  have z: "\<not> truthy (order_id (order_id_arrives 0 demo_client))"
    by (simp add: order_id_arrives_def)
  show ?thesis
    by (simp add: place_order_falsy [where async = "order_id_arrives 0", OF demo_world_client z] demo_world_client
        order_id_arrives_def)
qed

text \<open>
  C3, amended: when the client's order id after the wait is a non-zero integer,
  place\_order returns and submits exactly one order, with that id, for the symbol
  displayed in the top bar, of type MKT, quantity 1, and action BUY when the key is B and
  SELL otherwise (in particular when the key is S).
\<close>

theorem place_order_submits_one_order:
  assumes "client w = Some cl" and "order_id (async cl) = Some n" and "n \<noteq> 0"
  shows "raised (place_order async w key) = None
       \<and> placed_orders (new_events w (world_of (place_order async w key))) =
           [(n,
             \<lparr> symbol = topbar_symbol (chart w), secType = ''STK'', exchange = ''SMART'',
               currency = ''USD'' \<rparr>,
             \<lparr> orderType = ''MKT'', totalQuantity = 1,
               action = (if key = ''B'' then ''BUY'' else ''SELL'') \<rparr>)]"
  by (simp add: place_order_truthy [where async = async, OF assms])

theorem place_order_submits_one_order_witness:
  "client demo_world = Some demo_client
   \<and> order_id (order_id_arrives 42 demo_client) = Some 42
   \<and> (42 :: int) \<noteq> 0
   \<and> placed_orders (new_events demo_world
        (world_of (place_order (order_id_arrives 42) demo_world ''B''))) =
       [(42,
         \<lparr> symbol = ''AAPL'', secType = ''STK'', exchange = ''SMART'', currency = ''USD'' \<rparr>,
         \<lparr> orderType = ''MKT'', totalQuantity = 1, action = ''BUY'' \<rparr>)]
   \<and> placed_orders (new_events demo_world
        (world_of (place_order (order_id_arrives 42) demo_world ''S''))) =
       [(42,
         \<lparr> symbol = ''AAPL'', secType = ''STK'', exchange = ''SMART'', currency = ''USD'' \<rparr>,
         \<lparr> orderType = ''MKT'', totalQuantity = 1, action = ''SELL'' \<rparr>)]"
proof -
  have a: "order_id (order_id_arrives 42 demo_client) = Some 42"
    by (simp add: order_id_arrives_def)
  have n: "(42 :: int) \<noteq> 0" by simp
  note t = place_order_submits_one_order [where async = "order_id_arrives 42", OF demo_world_client a n]
  from t [of "''B''"] t [of "''S''"]
  show ?thesis by (simp add: demo_world_client a demo_world_chart)
qed

text \<open>
  C4, as stated, fails: the handler tests the value of the attribute, not whether an id
  was assigned during the wait. On a client that still holds the id 7 of an earlier
  order, with nothing assigned during the wait, place\_order submits an order with the
  id 7 and logs no error.
\<close>

theorem place_order_stale_id_counterexample:
  "client stale_world = Some (order_id_arrives 7 demo_client)
   \<and> nothing_arrives (order_id_arrives 7 demo_client) = order_id_arrives 7 demo_client
   \<and> placed_orders (new_events stale_world
        (world_of (place_order nothing_arrives stale_world ''B''))) =
       [(7,
         \<lparr> symbol = ''AAPL'', secType = ''STK'', exchange = ''SMART'', currency = ''USD'' \<rparr>,
         \<lparr> orderType = ''MKT'', totalQuantity = 1, action = ''BUY'' \<rparr>)]
   \<and> logged ERROR (new_events stale_world
        (world_of (place_order nothing_arrives stale_world ''B''))) = []"
proof -
  have a: "order_id (nothing_arrives (order_id_arrives 7 demo_client)) = Some 7"
    by (simp add: nothing_arrives_def order_id_arrives_def)
  have n: "(7 :: int) \<noteq> 0" by simp
  note r = place_order_truthy [where async = nothing_arrives, OF stale_world_eq(1) a n,
      of "''B''"]
  show ?thesis
    by (simp add: r stale_world_eq nothing_arrives_def)
qed

text \<open>
  C4, amended: with a client attached whose order id attribute holds no id (None) when
  it is read after the wait, place\_order returns, submits no order and logs exactly one
  error; the only events are the id request, the sleep and the error, so nothing is
  retried, and neither the queue nor the chart is touched.
\<close>

theorem place_order_without_id_drops_order:
  assumes "client w = Some cl" and "order_id (async cl) = None"
  shows "raised (place_order async w key) = None
       \<and> placed_orders (new_events w (world_of (place_order async w key))) = []
       \<and> logged ERROR (new_events w (world_of (place_order async w key))) =
           [''Order ID not received from IB API. Cannot place order.'']
       \<and> new_events w (world_of (place_order async w key)) =
           [ReqIds (- 1), Sleep 2,
            Log ERROR ''Order ID not received from IB API. Cannot place order.'']
       \<and> data_queue (world_of (place_order async w key)) = data_queue w
       \<and> chart (world_of (place_order async w key)) = chart w"
proof -
  have f: "\<not> truthy (order_id (async cl))" using assms(2) by simp
  show ?thesis
    by (simp add: place_order_falsy [where async = async, OF assms(1) f])
qed

theorem place_order_without_id_drops_order_witness:
  "client demo_world = Some demo_client
   \<and> order_id (nothing_arrives demo_client) = None
   \<and> placed_orders (new_events demo_world
        (world_of (place_order nothing_arrives demo_world ''B''))) = []
   \<and> logged ERROR (new_events demo_world
        (world_of (place_order nothing_arrives demo_world ''B''))) =
       [''Order ID not received from IB API. Cannot place order.'']"
proof -
  have a: "order_id (nothing_arrives demo_client) = None"
    by (simp add: nothing_arrives_def demo_client_def)
  from place_order_without_id_drops_order [where async = nothing_arrives, OF demo_world_client a,
      of "''B''"]
  show ?thesis by (simp add: demo_world_client a)
qed

text \<open>
  C5: called with an empty queue, update\_chart returns without raising, makes no
  dataset-set call and leaves the displayed dataset as it was, and logs one warning and
  no error.
\<close>

theorem update_chart_empty_queue_warns:
  assumes "data_queue w = []"
  shows "raised (update_chart w) = None
       \<and> dataset (chart (world_of (update_chart w))) = dataset (chart w)
       \<and> chart_sets (new_events w (world_of (update_chart w))) = []
       \<and> logged WARNING (new_events w (world_of (update_chart w))) =
           [''No data to update the chart.'']
       \<and> logged ERROR (new_events w (world_of (update_chart w))) = []"
  by (simp add: update_chart_empty [OF assms])

theorem update_chart_empty_queue_warns_witness:
  "data_queue shown_world = []
   \<and> raised (update_chart shown_world) = None
   \<and> dataset (chart (world_of (update_chart shown_world))) = DataFrame [bar1]
   \<and> logged WARNING (new_events shown_world (world_of (update_chart shown_world))) =
       [''No data to update the chart.'']"
  using update_chart_empty_queue_warns [OF shown_world_eq(1)]
  by (simp add: shown_world_eq)

text \<open>
  C6: with the client set, on\_search returns, and its events are, in this order: the
  log line, the events of the request for the searched string at the timeframe selected
  in the top bar (among them the one historical-data request), and last the update of
  the top bar's symbol to the searched string, which is then the displayed symbol.
\<close>

theorem on_search_requests_then_displays:
  assumes "client w = Some cl"
  shows "raised (on_search w s) = None
       \<and> topbar_symbol (chart (world_of (on_search w s))) = s
       \<and> new_events w (world_of (on_search w s)) =
           [Log INFO (''Searching for symbol: '' @ s),
            Log INFO (''Requesting bar data for '' @ s @ '' '' @ topbar_timeframe (chart w)),
            Spinner True,
            ReqHistoricalData
              \<lparr> requestId = 2,
                req_contract = \<lparr> symbol = s, secType = ''STK'', exchange = ''SMART'',
                                 currency = DEFAULT_CURRENCY (config w) \<rparr>,
                endDateTime = [],
                durationStr = DEFAULT_HISTORICAL_DURATION (config w),
                barSizeSetting = topbar_timeframe (chart w), whatToShow = ''TRADES'',
                useRTH = True, formatDate = 2, keepUpToDate = False, chartOptions = [] \<rparr>,
            Sleep 1, Watermark s, Spinner False,
            TopbarSet ''symbol'' s]"
  by (simp add: on_search_with_client [OF assms])

theorem on_search_requests_then_displays_witness:
  "client demo_world = Some demo_client
   \<and> topbar_symbol (chart demo_world) = ''AAPL''
   \<and> topbar_symbol (chart (world_of (on_search demo_world ''MSFT''))) = ''MSFT''
   \<and> new_events demo_world (world_of (on_search demo_world ''MSFT'')) =
       [Log INFO ''Searching for symbol: MSFT'',
        Log INFO ''Requesting bar data for MSFT 1 min'',
        Spinner True,
        ReqHistoricalData
          \<lparr> requestId = 2,
            req_contract = \<lparr> symbol = ''MSFT'', secType = ''STK'', exchange = ''SMART'',
                             currency = ''EUR'' \<rparr>,
            endDateTime = [], durationStr = ''30 D'', barSizeSetting = ''1 min'',
            whatToShow = ''TRADES'', useRTH = True, formatDate = 2, keepUpToDate = False,
            chartOptions = [] \<rparr>,
        Sleep 1, Watermark ''MSFT'', Spinner False,
        TopbarSet ''symbol'' ''MSFT'']"
  using on_search_requests_then_displays [OF demo_world_client, of "''MSFT''"]
  by (simp add: demo_world_client demo_world_config demo_world_chart)

text \<open>
  C7: after construction the client handle is unset, and while it is unset request\_data
  and place\_order end by raising the attribute error of a lookup on None: request\_data
  after its log line and the spinner, with no request issued and no error logged,
  place\_order before any effect. Nothing catches the error: it also leaves the two
  callbacks that call request\_data.
\<close>

theorem unset_client_raises_attribute_error:
  "client (ChartHandler_init cfg fs) = None
   \<and> (client w = None \<longrightarrow>
        raised (request_data w symb tf) = Some (AttributeError ''reqHistoricalData'')
      \<and> hist_requests (new_events w (world_of (request_data w symb tf))) = []
      \<and> logged ERROR (new_events w (world_of (request_data w symb tf))) = []
      \<and> raised (place_order async w key) = Some (AttributeError ''reqIds'')
      \<and> world_of (place_order async w key) = w
      \<and> raised (on_search w s) = Some (AttributeError ''reqHistoricalData'')
      \<and> raised (on_timeframe_selection w) = Some (AttributeError ''reqHistoricalData''))"
proof -
  have "client (ChartHandler_init cfg fs) = None"
    by (simp add: ChartHandler_init_def)
  moreover
  { assume n: "client w = None"
    have "raised (request_data w symb tf) = Some (AttributeError ''reqHistoricalData'')"
      and "hist_requests (new_events w (world_of (request_data w symb tf))) = []"
      and "logged ERROR (new_events w (world_of (request_data w symb tf))) = []"
      by (simp_all add: request_data_without_client [OF n])
    moreover have "raised (place_order async w key) = Some (AttributeError ''reqIds'')"
      and "world_of (place_order async w key) = w"
      by (simp_all add: place_order_without_client [OF n])
    moreover note on_search_without_client [OF n, of s]
      on_timeframe_selection_without_client [OF n]
    ultimately have
      "raised (request_data w symb tf) = Some (AttributeError ''reqHistoricalData'')
      \<and> hist_requests (new_events w (world_of (request_data w symb tf))) = []
      \<and> logged ERROR (new_events w (world_of (request_data w symb tf))) = []
      \<and> raised (place_order async w key) = Some (AttributeError ''reqIds'')
      \<and> world_of (place_order async w key) = w
      \<and> raised (on_search w s) = Some (AttributeError ''reqHistoricalData'')
      \<and> raised (on_timeframe_selection w) = Some (AttributeError ''reqHistoricalData'')"
      by simp }
  ultimately show ?thesis by blast
qed

theorem unset_client_raises_attribute_error_witness:
  "client fresh_world = None
   \<and> raised (request_data fresh_world ''AAPL'' ''5 mins'') = Some (AttributeError ''reqHistoricalData'')
   \<and> hist_requests (new_events fresh_world (world_of (request_data fresh_world ''AAPL'' ''5 mins''))) = []
   \<and> raised (place_order (order_id_arrives 42) fresh_world ''B'') = Some (AttributeError ''reqIds'')
   \<and> world_of (place_order (order_id_arrives 42) fresh_world ''B'') = fresh_world"
  using unset_client_raises_attribute_error
    [of "load_config demo_environ" Map.empty fresh_world "''AAPL''" "''5 mins''"
        "order_id_arrives 42" "''B''" "''MSFT''"]
  by (simp add: fresh_world_client)

text \<open>
  C8: take\_screenshot takes the image rendered from the chart's current state and
  writes it to the file named screenshot-, the formatted clock reading, .png (a relative
  name, so in the working directory); the chart is not changed.
\<close>

theorem take_screenshot_writes_file:
  "files (take_screenshot render str_float now w key) =
     (files w)(''screenshot-'' @ str_float now @ ''.png'' \<mapsto> render (chart w))
   \<and> new_events w (take_screenshot render str_float now w key) =
       [Screenshot, FileWrite (''screenshot-'' @ str_float now @ ''.png'') (render (chart w))]
   \<and> chart (take_screenshot render str_float now w key) = chart w"
  by (simp add: take_screenshot_def Let_def emit_def)

text \<open>
  C9: every order that place\_order submits carries the currency USD, whatever the
  configured default currency is, and an order is submitted with USD whenever the client
  holds an order id that counts as present; the contract of request\_data carries the
  configured default currency.
\<close>

theorem place_order_currency_is_usd:
  "set (map order_currency (placed_orders (new_events w (world_of (place_order async w key)))))
     \<subseteq> {''USD''}
   \<and> (client w = Some cl \<and> truthy (order_id (async cl)) \<longrightarrow>
        map order_currency (placed_orders (new_events w (world_of (place_order async w key))))
          = [''USD''])
   \<and> (client w = Some cl \<longrightarrow>
        map (\<lambda>r. currency (req_contract r))
            (hist_requests (new_events w (world_of (request_data w symb tf))))
          = [DEFAULT_CURRENCY (config w)])"
proof -
  have t: "map order_currency (placed_orders (new_events w (world_of (place_order async w key))))
             = [''USD'']"
    if c: "client w = Some c'" and y: "truthy (order_id (async c'))" for c'
  proof -
    from y obtain n where n: "order_id (async c') = Some n" "n \<noteq> 0"
      by (cases "order_id (async c')") auto
    show ?thesis
      by (simp add: place_order_truthy [where async = async, OF c n])
  qed
  have f: "placed_orders (new_events w (world_of (place_order async w key))) = []"
    if c: "client w = Some c'" and y: "\<not> truthy (order_id (async c'))" for c'
    by (simp add: place_order_falsy [where async = async, OF c y])
  have 1: "set (map order_currency (placed_orders (new_events w (world_of (place_order async w key)))))
     \<subseteq> {''USD''}"
  proof (cases "client w")
    case None
    then show ?thesis
      by (simp add: place_order_without_client new_events_def)
  next
    case (Some c')
    then show ?thesis
      using t [of c'] f [of c'] by (cases "truthy (order_id (async c'))") simp_all
  qed
  have 3: "map (\<lambda>r. currency (req_contract r))
            (hist_requests (new_events w (world_of (request_data w symb tf))))
          = [DEFAULT_CURRENCY (config w)]" if c: "client w = Some cl"
    by (simp add: request_data_with_client [OF c])
  from 1 t [of cl] 3 show ?thesis by blast
qed

theorem place_order_currency_is_usd_witness:
  "client demo_world = Some demo_client
   \<and> truthy (order_id (order_id_arrives 42 demo_client))
   \<and> DEFAULT_CURRENCY (config demo_world) = ''EUR''
   \<and> map order_currency (placed_orders (new_events demo_world
        (world_of (place_order (order_id_arrives 42) demo_world ''S'')))) = [''USD'']
   \<and> map (\<lambda>r. currency (req_contract r))
        (hist_requests (new_events demo_world (world_of (request_data demo_world ''AAPL'' ''1 min''))))
       = [''EUR'']"
proof -
  have y: "truthy (order_id (order_id_arrives 42 demo_client))"
    by (simp add: order_id_arrives_def)
  from place_order_currency_is_usd
    [of demo_world "order_id_arrives 42" "''S''" demo_client "''AAPL''" "''1 min''"]
  show ?thesis by (simp add: demo_world_client y demo_world_config)
qed

text \<open>
  C10: when the order id that the client holds after the wait is 0, place\_order treats
  it as absent: it returns, submits no order and logs the error.
\<close>

theorem place_order_zero_id_is_absent:
  assumes "client w = Some cl" and "order_id (async cl) = Some 0"
  shows "raised (place_order async w key) = None
       \<and> placed_orders (new_events w (world_of (place_order async w key))) = []
       \<and> logged ERROR (new_events w (world_of (place_order async w key))) =
           [''Order ID not received from IB API. Cannot place order.'']"
proof -
  have f: "\<not> truthy (order_id (async cl))" using assms(2) by simp
  show ?thesis
    by (simp add: place_order_falsy [where async = async, OF assms(1) f])
qed

theorem place_order_zero_id_is_absent_witness:
  "client demo_world = Some demo_client
   \<and> order_id (order_id_arrives 0 demo_client) = Some 0
   \<and> raised (place_order (order_id_arrives 0) demo_world ''S'') = None
   \<and> placed_orders (new_events demo_world
        (world_of (place_order (order_id_arrives 0) demo_world ''S''))) = []
   \<and> logged ERROR (new_events demo_world
        (world_of (place_order (order_id_arrives 0) demo_world ''S''))) =
       [''Order ID not received from IB API. Cannot place order.'']"
proof -
  have a: "order_id (order_id_arrives 0 demo_client) = Some 0"
    by (simp add: order_id_arrives_def)
  from place_order_zero_id_is_absent [where async = "order_id_arrives 0", OF demo_world_client a,
      of "''S''"]
  show ?thesis by (simp add: demo_world_client a)
qed

end
